theory Spec2Isabelle
  imports Complex_Main "HOL-Library.Multiset" "HOL-Library.Sublist"
begin

section \<open>The catalogue service of \<^verbatim>\<open>src/index.js\<close>\<close>

text \<open>
  The program is one JavaScript module: a dataset \<^verbatim>\<open>db\<close> read once at start-up, the
  query functions \<^verbatim>\<open>shuffle\<close>, \<^verbatim>\<open>pagination\<close>, \<^verbatim>\<open>getGoodsList\<close> and
  \<^verbatim>\<open>getItems\<close>, and the request handler given to \<^verbatim>\<open>createServer\<close>.
  Each function is translated into a HOL function of the same name. What JavaScript leaves
  implicit is an argument here: the dataset, the values drawn from \<^verbatim>\<open>Math.random\<close>,
  and the language's own string routines.
\<close>

subsection \<open>Numbers\<close>

text \<open>
  A JavaScript Number is a finite value, \<^verbatim>\<open>NaN\<close> or one of the two infinities. Finite
  values are rationals here and arithmetic on them is exact, which is what IEEE doubles do
  on integers below \<open>2^53\<close>; on fractions the code rounds, and a product such as
  \<^verbatim>\<open>0.57 * 100\<close> differs from the exact one. Negative zero is not told apart from zero.
  The theorems on \<^verbatim>\<open>pagination\<close> below are about integer pages and page sizes.
\<close>

datatype number = Fin rat | NaN | PosInf | NegInf

fun js_mul :: "number \<Rightarrow> number \<Rightarrow> number" where
  "js_mul NaN _ = NaN"
| "js_mul _ NaN = NaN"
| "js_mul (Fin a) (Fin b) = Fin (a * b)"
| "js_mul (Fin a) PosInf = (if a = 0 then NaN else if 0 < a then PosInf else NegInf)"
| "js_mul (Fin a) NegInf = (if a = 0 then NaN else if 0 < a then NegInf else PosInf)"
| "js_mul PosInf (Fin b) = (if b = 0 then NaN else if 0 < b then PosInf else NegInf)"
| "js_mul NegInf (Fin b) = (if b = 0 then NaN else if 0 < b then NegInf else PosInf)"
| "js_mul PosInf PosInf = PosInf"
| "js_mul PosInf NegInf = NegInf"
| "js_mul NegInf PosInf = NegInf"
| "js_mul NegInf NegInf = PosInf"

fun js_sub :: "number \<Rightarrow> number \<Rightarrow> number" where
  "js_sub NaN _ = NaN"
| "js_sub _ NaN = NaN"
| "js_sub (Fin a) (Fin b) = Fin (a - b)"
| "js_sub (Fin a) PosInf = NegInf"
| "js_sub (Fin a) NegInf = PosInf"
| "js_sub PosInf PosInf = NaN"
| "js_sub PosInf _ = PosInf"
| "js_sub NegInf NegInf = NaN"
| "js_sub NegInf _ = NegInf"

fun js_div :: "number \<Rightarrow> number \<Rightarrow> number" where
  "js_div NaN _ = NaN"
| "js_div _ NaN = NaN"
| "js_div (Fin a) (Fin b) =
     (if b \<noteq> 0 then Fin (a / b)
      else if a = 0 then NaN else if 0 < a then PosInf else NegInf)"
| "js_div (Fin a) _ = Fin 0"
| "js_div PosInf (Fin b) = (if 0 \<le> b then PosInf else NegInf)"
| "js_div NegInf (Fin b) = (if 0 \<le> b then NegInf else PosInf)"
| "js_div _ _ = NaN"

text \<open>\<^verbatim>\<open>Math.ceil\<close>.\<close>

fun ceil :: "number \<Rightarrow> number" where
  "ceil (Fin a) = Fin (of_int \<lceil>a\<rceil>)"
| "ceil n = n"

text \<open>
  Truthiness of a Number, as \<^verbatim>\<open>||\<close> tests it: zero and \<^verbatim>\<open>NaN\<close> are falsy.
\<close>

definition truthy_number :: "number \<Rightarrow> bool" where
  "truthy_number n = (n \<noteq> Fin 0 \<and> n \<noteq> NaN)"

subsection \<open>Arrays\<close>

text \<open>
  \<^verbatim>\<open>Array.prototype.slice(start, end)\<close>: each bound is truncated towards zero
  (\<^verbatim>\<open>NaN\<close> counts as 0), a negative bound counts from the end of the array, and both
  are clamped to the array. \<open>relative_index\<close> is that computation for one bound.
\<close>

definition trunc :: "rat \<Rightarrow> int" where
  "trunc a = (if 0 \<le> a then \<lfloor>a\<rfloor> else \<lceil>a\<rceil>)"

fun relative_index :: "nat \<Rightarrow> number \<Rightarrow> nat" where
  "relative_index len NaN = 0"
| "relative_index len NegInf = 0"
| "relative_index len PosInf = len"
| "relative_index len (Fin a) =
     (if trunc a < 0 then nat (max (int len + trunc a) 0) else nat (min (trunc a) (int len)))"

definition slice :: "'a list \<Rightarrow> number \<Rightarrow> number \<Rightarrow> 'a list" where
  "slice xs start end' =
     (let k = relative_index (length xs) start;
          final = relative_index (length xs) end'
      in take (final - k) (drop k xs))"

text \<open>
  Assigning \<^verbatim>\<open>array.length = n\<close> cuts the array to \<open>n\<close> elements or pads it with empty
  slots. An array that may have empty slots is a list of options, \<open>None\<close> the empty slot.
\<close>

definition set_length :: "nat \<Rightarrow> 'a list \<Rightarrow> 'a option list" where
  "set_length n xs = map Some (take n xs) @ replicate (n - length xs) None"

subsection \<open>Strings\<close>

text \<open>
  Strings are lists of characters. \<^verbatim>\<open>String.prototype.includes\<close> is the search for a
  contiguous occurrence, \<^verbatim>\<open>startsWith\<close> the prefix test, \<^verbatim>\<open>substring\<close> with
  bounds inside the natural numbers is \<open>take\<close> after \<open>drop\<close>, and \<^verbatim>\<open>split\<close> on a
  one-character separator cuts at every occurrence of it.
\<close>

fun includes' :: "string \<Rightarrow> string \<Rightarrow> bool" where
  "includes' [] s = (s = [])"
| "includes' (c # cs) s = (prefix s (c # cs) \<or> includes' cs s)"

definition startsWith :: "string \<Rightarrow> string \<Rightarrow> bool" where
  "startsWith s p = prefix p s"

definition substring :: "string \<Rightarrow> nat \<Rightarrow> nat \<Rightarrow> string" where
  "substring s a b = take (max a b - min a b) (drop (min a b) s)"

fun split :: "char \<Rightarrow> string \<Rightarrow> string list" where
  "split sep [] = [[]]"
| "split sep (c # cs) =
     (if c = sep then [] # split sep cs
      else (case split sep cs of p # ps \<Rightarrow> (c # p) # ps | [] \<Rightarrow> [[c]]))"

text \<open>
  The routines whose result depends on the Unicode tables or on the number grammar of the
  language are taken as given: \<^verbatim>\<open>toLowerCase\<close>, \<^verbatim>\<open>trim\<close>, the conversion of a string
  to a Number (unary \<^verbatim>\<open>+\<close> and the arithmetic operators apply it), and
  \<^verbatim>\<open>decodeURIComponent\<close>, which throws a \<^verbatim>\<open>URIError\<close> on a malformed escape
  (\<open>None\<close> here). Every theorem below holds for whatever these four functions are.
\<close>

record builtins =
  toLowerCase :: "string \<Rightarrow> string"
  trim :: "string \<Rightarrow> string"
  StringToNumber :: "string \<Rightarrow> number"
  decodeURIComponent :: "string \<Rightarrow> string option"

text \<open>A value that is a string or a Number, and its conversion to a Number.\<close>

datatype jsval = JStr string | JNum number

fun toNumber :: "builtins \<Rightarrow> jsval \<Rightarrow> number" where
  "toNumber B (JStr s) = StringToNumber B s"
| "toNumber B (JNum n) = n"

subsection \<open>\<^verbatim>\<open>pagination\<close>\<close>

text \<open>
  \<^verbatim>\<open>
  const pagination = (data, page, count) => {
    const end = count * page;
    const start = page === 1 ? 0 : end - count;
    const totalCount = data.length;
    const pages = Math.ceil(data.length / count);
    return { goods: data.slice(start, end), page, pages, totalCount };
  };
  \<close>
  \<open>page\<close> is a Number; \<open>count\<close> is the string of the query or the Number 12, and each
  arithmetic operator converts it.
\<close>

record 'a page_result =
  goods :: "'a list"
  page :: number
  pages :: number
  totalCount :: nat

definition pagination :: "builtins \<Rightarrow> 'a list \<Rightarrow> number \<Rightarrow> jsval \<Rightarrow> 'a page_result" where
  "pagination B data page' count' =
     (let end' = js_mul (toNumber B count') page';
          start = (if page' = Fin 1 then Fin 0 else js_sub end' (toNumber B count'));
          totalCount' = length data;
          pages' = ceil (js_div (Fin (of_nat (length data))) (toNumber B count'))
      in \<lparr>goods = slice data start end', page = page', pages = pages', totalCount = totalCount'\<rparr>)"

subsection \<open>\<^verbatim>\<open>shuffle\<close>\<close>

text \<open>
  \<^verbatim>\<open>
  const shuffle = (array) => {
    const shuffleArray = [...array];
    for (let i = shuffleArray.length - 1; i > 0; i--) {
      let j = Math.floor(Math.random() * (i + 1));
      [shuffleArray[i], shuffleArray[j]] = [shuffleArray[j], shuffleArray[i]];
    }
    return shuffleArray;
  };
  \<close>
  The source of randomness is an argument: \<open>rnd k\<close> is what the \<open>k\<close>-th call of
  \<^verbatim>\<open>Math.random\<close> returns, a value that the language promises to be in \<open>[0, 1)\<close>.
  The loop runs over \<open>i\<close> from the last index down to 1.
\<close>

fun shuffle_loop :: "(nat \<Rightarrow> rat) \<Rightarrow> nat \<Rightarrow> 'a list \<Rightarrow> 'a list" where
  "shuffle_loop rnd 0 shuffleArray = shuffleArray"
| "shuffle_loop rnd (Suc n) shuffleArray =
     (let i = Suc n;
          j = nat \<lfloor>rnd 0 * of_nat (i + 1)\<rfloor>
      in shuffle_loop (\<lambda>k. rnd (Suc k)) n
           (shuffleArray[i := shuffleArray ! j, j := shuffleArray ! i]))"

definition shuffle :: "(nat \<Rightarrow> rat) \<Rightarrow> 'a list \<Rightarrow> 'a list" where
  "shuffle rnd array = shuffle_loop rnd (length array - 1) array"

subsection \<open>The dataset, the parameters and the errors\<close>

text \<open>
  An item of \<^verbatim>\<open>db.goods\<close> with the fields the code reads; \<open>top'\<close> is the truthiness
  of the item's \<^verbatim>\<open>top\<close> field. Whatever else an item carries is never looked at.
\<close>

record item =
  id' :: string
  title :: string
  description :: string
  category :: string
  gender :: string
  type' :: string
  top' :: bool

text \<open>
  JSON documents, as \<^verbatim>\<open>JSON.stringify\<close> writes them; \<open>JItem\<close> is the object of an
  item, written out as the dataset has it.
\<close>

datatype json =
    JNull
  | JNumber rat
  | JString string
  | JItem item
  | JArray "json list"
  | JObject "(string \<times> json) list"

record db =
  goods :: "item list"
  categories :: json
  colors :: json

text \<open>
  \<^verbatim>\<open>queryParams\<close> maps keys to strings; a key that was not given reads as
  \<^verbatim>\<open>undefined\<close> (\<open>None\<close>). A parameter is truthy when it is a string that is
  not empty.
\<close>

type_synonym params = "string \<rightharpoonup> string"

definition truthy :: "string option \<Rightarrow> bool" where
  "truthy v = (case v of None \<Rightarrow> False | Some s \<Rightarrow> s \<noteq> [])"

text \<open>The string of a parameter, read where the parameter is known to be truthy.\<close>

definition str :: "string option \<Rightarrow> string" where
  "str v = (case v of None \<Rightarrow> [] | Some s \<Rightarrow> s)"

text \<open>Unary plus on a parameter: \<^verbatim>\<open>+undefined\<close> is \<^verbatim>\<open>NaN\<close>.\<close>

definition unary_plus :: "builtins \<Rightarrow> string option \<Rightarrow> number" where
  "unary_plus B v = (case v of None \<Rightarrow> NaN | Some s \<Rightarrow> StringToNumber B s)"

text \<open>
  \<^verbatim>\<open>class ApiError extends Error\<close> carries a status code and a payload. The other
  errors are the language's own: the \<^verbatim>\<open>URIError\<close> of \<^verbatim>\<open>decodeURIComponent\<close>,
  the \<^verbatim>\<open>TypeError\<close> of a method call on \<^verbatim>\<open>undefined\<close>, and the
  \<^verbatim>\<open>ReferenceError\<close> of a name that is not defined.
\<close>

datatype error =
    ApiError (statusCode: nat) (data: json)
  | URIError
  | TypeError
  | ReferenceError

definition message :: "string \<Rightarrow> json" where
  "message m = JObject [(''message'', JString m)]"

subsection \<open>\<^verbatim>\<open>getGoodsList\<close> and \<^verbatim>\<open>getItems\<close>\<close>

text \<open>
  \<^verbatim>\<open>
  const getGoodsList = (params = {}) => {
    const page = +params.page || 1;
    const paginationCount = params.count || 12;
    let data = [...db.goods];
    if (params.top) {
      data = data.filter((item) => item.top && item.gender === params.top);
      data = shuffle(data);
      data.length = 8;
      return data;
    }
    if (params.gender) {
      data = data.filter((item) => item.gender === params.gender);
    }
    if (params.category) {
      if (!params.gender) throw new ApiError(403, { message: "Not gender params" });
      data = data.filter((item) => item.category === params.category);
    }
    if (params.type) {
      data = data.filter((item) => item.type === params.type);
    }
    if (params.search) {
      const search = params.search.trim().toLowerCase();
      data = db.goods.filter((item) => {
        return (
          item.title.toLowerCase().includes(search) ||
          item.description.toLowerCase().includes(search)
        );
      });
    }
    if (params.list) {
      const list = params.list.trim().toLowerCase();
      return db.goods.filter((item) => list.includes(item.id));
    }
    return pagination(data, page, paginationCount);
  };
  \<close>
  \<^verbatim>\<open>getGoodsList\<close> returns either an array of items (the \<^verbatim>\<open>top\<close> and \<^verbatim>\<open>list\<close>
  branches; the \<^verbatim>\<open>top\<close> branch may leave empty slots) or the object built by
  \<^verbatim>\<open>pagination\<close>, or it throws. The branches are tested in the order of the source;
  the test of \<^verbatim>\<open>!params.gender\<close> inside the \<^verbatim>\<open>category\<close> branch is the second
  \<open>if\<close> below. A comparison \<^verbatim>\<open>item.gender === params.gender\<close> is the equality of
  the item's string with the parameter.
\<close>

datatype goods_list = Items "item option list" | Page "item page_result"

definition getGoodsList ::
  "builtins \<Rightarrow> db \<Rightarrow> (nat \<Rightarrow> rat) \<Rightarrow> params \<Rightarrow> error + goods_list" where
  "getGoodsList B d rnd params =
     (let page' = (let n = unary_plus B (params ''page'') in if truthy_number n then n else Fin 1);
          paginationCount =
            (if truthy (params ''count'') then JStr (str (params ''count'')) else JNum (Fin 12));
          data = db.goods d
      in
      if truthy (params ''top'') then
        Inr (Items (set_length 8 (shuffle rnd
          (filter (\<lambda>item. top' item \<and> Some (gender item) = params ''top'') data))))
      else
      let data = (if truthy (params ''gender'')
                  then filter (\<lambda>item. Some (gender item) = params ''gender'') data else data)
      in
      if truthy (params ''category'') \<and> \<not> truthy (params ''gender'') then
        Inl (ApiError 403 (message ''Not gender params''))
      else
      let data = (if truthy (params ''category'')
                  then filter (\<lambda>item. Some (category item) = params ''category'') data else data);
          data = (if truthy (params ''type'')
                  then filter (\<lambda>item. Some (type' item) = params ''type'') data else data);
          data = (if truthy (params ''search'')
                  then (let search = toLowerCase B (trim B (str (params ''search'')))
                        in filter (\<lambda>item. includes' (toLowerCase B (title item)) search \<or>
                                          includes' (toLowerCase B (description item)) search)
                             (db.goods d))
                  else data)
      in
      if truthy (params ''list'') then
        (let list = toLowerCase B (trim B (str (params ''list'')))
         in Inr (Items (map Some (filter (\<lambda>item. includes' list (id' item)) (db.goods d)))))
      else Inr (Page (pagination B data page' paginationCount)))"

text \<open>
  \<^verbatim>\<open>
  const getItems = (itemId) => {
    const item = db.goods.find(({ id }) => id === itemId);
    if (!item) throw new ApiError(404, { message: "Item Not Found" });
    return item;
  };
  \<close>
\<close>

definition getItems :: "db \<Rightarrow> string \<Rightarrow> error + item" where
  "getItems d itemId =
     (case find (\<lambda>item. id' item = itemId) (db.goods d) of
        None \<Rightarrow> Inl (ApiError 404 (message ''Item Not Found''))
      | Some item \<Rightarrow> Inr item)"

subsection \<open>The request handler\<close>

text \<open>
  \<^verbatim>\<open>JSON.stringify\<close> of what the two query functions return: an empty slot of an array
  and a Number that is not finite are both written \<^verbatim>\<open>null\<close>.
\<close>

fun json_number :: "number \<Rightarrow> json" where
  "json_number (Fin a) = JNumber a"
| "json_number n = JNull"

definition json_slot :: "item option \<Rightarrow> json" where
  "json_slot x = (case x of None \<Rightarrow> JNull | Some i \<Rightarrow> JItem i)"

fun stringify :: "goods_list \<Rightarrow> json" where
  "stringify (Items xs) = JArray (map json_slot xs)"
| "stringify (Page r) =
     JObject [(''goods'', JArray (map JItem (page_result.goods r))),
              (''page'', json_number (page r)),
              (''pages'', json_number (pages r)),
              (''totalCount'', JNumber (of_nat (totalCount r)))]"

text \<open>
  A request is its method and its URL. The handler is an \<^verbatim>\<open>async\<close> function: it ends
  the response with a status and a body (\<open>None\<close> when \<^verbatim>\<open>res.end\<close> gets nothing to
  write), or an exception leaves it, in which case its promise is rejected and nothing is
  written to the response.
\<close>

record request =
  "method" :: string
  url :: string

datatype outcome =
    Response (status: nat) (body: "json option")
  | Rejected error

definition URI_PREFIX :: string where
  "URI_PREFIX = ''/api/goods''"

text \<open>
  \<^verbatim>\<open>
  for (const piece of query.split("&")) {
    const [key, value] = piece.split("=");
    queryParams[key] = value ? decodeURIComponent(value) : "";
  }
  \<close>
  \<open>split\<close> returns at least one piece, so the first case below, where the array
  pattern would bind \<^verbatim>\<open>undefined\<close> to the key, is never taken; it is written as the
  language would run it. The same holds for the empty case in \<open>handler\<close>.
\<close>

fun parse_query :: "builtins \<Rightarrow> string list \<Rightarrow> params \<Rightarrow> error + params" where
  "parse_query B [] queryParams = Inr queryParams"
| "parse_query B (piece # pieces) queryParams =
     (case split CHR ''='' piece of
        [] \<Rightarrow> parse_query B pieces (queryParams(''undefined'' \<mapsto> []))
      | [key] \<Rightarrow> parse_query B pieces (queryParams(key \<mapsto> []))
      | key # value # _ \<Rightarrow>
          (if value = [] then parse_query B pieces (queryParams(key \<mapsto> []))
           else (case decodeURIComponent B value of
                   None \<Rightarrow> Inl URIError
                 | Some v \<Rightarrow> parse_query B pieces (queryParams(key \<mapsto> v)))))"

text \<open>
  The body of the \<^verbatim>\<open>try\<close> block, and the \<^verbatim>\<open>catch\<close> block:
  \<^verbatim>\<open>
  try {
    const body = await (() => {
      const postPrefix = uri.substring(1);
      if (req.method !== "GET") return;
      if (uri === "" || uri === "/") {
        return getGoodsList(queryParams);
      }
      return getItems(postPrefix);
    })();
    res.end(JSON.stringify(body));
  } catch (err) {
    console.log("err: ", err);
    if (err instanceof ApiError) {
      res.writeHead(err.statusCode);
      res.end(JSON.stringify(err.data));
    } else {
      res.statusCode = 500;
      res.end(JSON.stringify({ message: "Server Error" }));
    }
  }
  \<close>
  What \<^verbatim>\<open>console.log\<close> prints is not part of the model.
\<close>

definition try_body ::
  "builtins \<Rightarrow> db \<Rightarrow> (nat \<Rightarrow> rat) \<Rightarrow> request \<Rightarrow> string \<Rightarrow> params \<Rightarrow> error + json option" where
  "try_body B d rnd req uri queryParams =
     (let postPrefix = drop 1 uri
      in if method req \<noteq> ''GET'' then Inr None
         else if uri = [] \<or> uri = ''/'' then
           (case getGoodsList B d rnd queryParams of
              Inl err \<Rightarrow> Inl err
            | Inr r \<Rightarrow> Inr (Some (stringify r)))
         else
           (case getItems d postPrefix of
              Inl err \<Rightarrow> Inl err
            | Inr i \<Rightarrow> Inr (Some (JItem i))))"

fun catch :: "error \<Rightarrow> outcome" where
  "catch (ApiError s p) = Response s (Some p)"
| "catch err = Response 500 (Some (message ''Server Error''))"

text \<open>
  The handler, before the \<^verbatim>\<open>try\<close> block:
  \<^verbatim>\<open>
  createServer(async (req, res) => {
    if (req.url.substring(1, 4) === "img") {
      res.statusCode = 200;
      res.setHeader("Content-Type", "image/jpeg");
      require("fs").readFile(..., (err, image) => { res.end(image); });
      return;
    }
    ...
    if (req.method === "OPTIONS") { res.end(); return; }
    if (req.url.includes("/api/categories")) {
      res.end(JSON.stringify(db.categories)); return;
    }
    if (req.url.includes("/api/colors")) {
      res.end(JSON.stringify(db.colors)); return;
    }
    if (!req.url || !req.url.startsWith(URI_PREFIX)) {
      res.statusCode = 404;
      res.end(JSON.stringify({ message: "Not Found" }));
      return;
    }
    const [uri, query] = req.url.substring(URI_PREFIX.length).split("?");
    const queryParams = {};
    if (query) { for (const piece of query.split("&")) { ... } }
    try { ... } catch (err) { ... }
  })
  \<close>
  The file is an ES module (it starts with \<^verbatim>\<open>import\<close> declarations), where
  \<^verbatim>\<open>require\<close> is not defined: on the \<^verbatim>\<open>img\<close> path the call throws a
  \<^verbatim>\<open>ReferenceError\<close> outside the \<^verbatim>\<open>try\<close> block. The response headers are left
  out.
\<close>

definition handler :: "builtins \<Rightarrow> db \<Rightarrow> (nat \<Rightarrow> rat) \<Rightarrow> request \<Rightarrow> outcome" where
  "handler B d rnd req =
     (if substring (url req) 1 4 = ''img'' then Rejected ReferenceError
      else if method req = ''OPTIONS'' then Response 200 None
      else if includes' (url req) ''/api/categories'' then Response 200 (Some (categories d))
      else if includes' (url req) ''/api/colors'' then Response 200 (Some (colors d))
      else if url req = [] \<or> \<not> startsWith (url req) URI_PREFIX then
        Response 404 (Some (message ''Not Found''))
      else
        (case split CHR ''?'' (drop (length URI_PREFIX) (url req)) of
           [] \<Rightarrow> catch TypeError
         | uri # rest \<Rightarrow>
             (case (case rest of
                      [] \<Rightarrow> Inr Map.empty
                    | query # _ \<Rightarrow>
                        if query = [] then Inr Map.empty
                        else parse_query B (split CHR ''&'' query) Map.empty) of
                Inl err \<Rightarrow> Rejected err
              | Inr queryParams \<Rightarrow>
                  (case try_body B d rnd req uri queryParams of
                     Inl err \<Rightarrow> catch err
                   | Inr b \<Rightarrow> Response 200 b))))"

subsection \<open>The string routines on ASCII text\<close>

text \<open>
  An instance of the four routines, for evaluating the functions above on examples. It
  agrees with the language on ASCII text. \<open>ascii_StringToNumber\<close> reads an optionally
  signed sequence of decimal digits between white space; \<open>ascii_decodeURIComponent\<close>
  reads escapes of the characters below 128. Other numeric literals and other escapes
  are not read by this instance, and no theorem on the functions above depends on it.
\<close>

definition ascii_toLowerCase :: "string \<Rightarrow> string" where
  "ascii_toLowerCase =
     map (\<lambda>c. let n = (of_char c :: nat) in if 65 \<le> n \<and> n \<le> 90 then char_of (n + 32) else c)"

definition white_space :: "char \<Rightarrow> bool" where
  "white_space c = ((of_char c :: nat) = 32 \<or> (9 \<le> (of_char c :: nat) \<and> (of_char c :: nat) \<le> 13))"

definition ascii_trim :: "string \<Rightarrow> string" where
  "ascii_trim s = rev (dropWhile white_space (rev (dropWhile white_space s)))"

definition digit :: "char \<Rightarrow> bool" where
  "digit c = (48 \<le> (of_char c :: nat) \<and> (of_char c :: nat) \<le> 57)"

definition decimal :: "string \<Rightarrow> nat" where
  "decimal ds = foldl (\<lambda>n c. 10 * n + (of_char c - 48)) 0 ds"

definition digits :: "string \<Rightarrow> number" where
  "digits ds = (if ds \<noteq> [] \<and> list_all digit ds then Fin (of_nat (decimal ds)) else NaN)"

definition ascii_StringToNumber :: "string \<Rightarrow> number" where
  "ascii_StringToNumber s =
     (case ascii_trim s of
        [] \<Rightarrow> Fin 0
      | c # cs \<Rightarrow>
          if c = CHR ''-'' then js_mul (Fin (- 1)) (digits cs)
          else if c = CHR ''+'' then digits cs
          else digits (c # cs))"

definition hex :: "char \<Rightarrow> nat option" where
  "hex c =
     (let n = (of_char c :: nat)
      in if 48 \<le> n \<and> n \<le> 57 then Some (n - 48)
         else if 65 \<le> n \<and> n \<le> 70 then Some (n - 55)
         else if 97 \<le> n \<and> n \<le> 102 then Some (n - 87)
         else None)"

fun ascii_decodeURIComponent :: "string \<Rightarrow> string option" where
  "ascii_decodeURIComponent [] = Some []"
| "ascii_decodeURIComponent (c # cs) =
     (if c = CHR ''%'' then
        (case cs of
           h # l # rest \<Rightarrow>
             (case (hex h, hex l) of
                (Some a, Some b) \<Rightarrow>
                  if 16 * a + b < 128
                  then map_option (Cons (char_of (16 * a + b))) (ascii_decodeURIComponent rest)
                  else None
              | _ \<Rightarrow> None)
         | _ \<Rightarrow> None)
      else map_option (Cons c) (ascii_decodeURIComponent cs))"

definition ascii :: builtins where
  "ascii = \<lparr>toLowerCase = ascii_toLowerCase, trim = ascii_trim,
            StringToNumber = ascii_StringToNumber,
            decodeURIComponent = ascii_decodeURIComponent\<rparr>"

subsection \<open>The paginated branch\<close>

text \<open>
  The three values that \<^verbatim>\<open>getGoodsList\<close> hands to \<^verbatim>\<open>pagination\<close> when it reaches
  its last line: \<^verbatim>\<open>page\<close>, \<^verbatim>\<open>paginationCount\<close> and \<^verbatim>\<open>data\<close>. Lemma
  \<open>getGoodsList_Page\<close> below shows that they are the ones of the definition above.
\<close>

definition page_number :: "builtins \<Rightarrow> params \<Rightarrow> number" where
  "page_number B params =
     (let n = unary_plus B (params ''page'') in if truthy_number n then n else Fin 1)"

definition paginationCount :: "params \<Rightarrow> jsval" where
  "paginationCount params =
     (if truthy (params ''count'') then JStr (str (params ''count'')) else JNum (Fin 12))"

text \<open>
  The search test of an item, in the words of the specification: the title or the
  description contains the trimmed, lower-cased search string, both sides compared in
  lower case.
\<close>

definition matches_search :: "builtins \<Rightarrow> string \<Rightarrow> item \<Rightarrow> bool" where
  "matches_search B s item =
     (includes' (toLowerCase B (title item)) (toLowerCase B (trim B s)) \<or>
      includes' (toLowerCase B (description item)) (toLowerCase B (trim B s)))"

definition narrowed :: "builtins \<Rightarrow> db \<Rightarrow> params \<Rightarrow> item list" where
  "narrowed B d params =
     (if truthy (params ''search'') then
        filter (matches_search B (str (params ''search''))) (db.goods d)
      else
        filter (\<lambda>item. (truthy (params ''gender'') \<longrightarrow> Some (gender item) = params ''gender'') \<and>
                       (truthy (params ''category'') \<longrightarrow> Some (category item) = params ''category'') \<and>
                       (truthy (params ''type'') \<longrightarrow> Some (type' item) = params ''type''))
          (db.goods d))"

text \<open>The items of a page, read off a result of \<^verbatim>\<open>getGoodsList\<close>.\<close>

fun page_goods :: "error + goods_list \<Rightarrow> item list" where
  "page_goods (Inr (Page r)) = page_result.goods r"
| "page_goods _ = []"

text \<open>The array of a result of \<^verbatim>\<open>getGoodsList\<close> that is one.\<close>

fun listed :: "error + goods_list \<Rightarrow> item option list" where
  "listed (Inr (Items xs)) = xs"
| "listed _ = []"

text \<open>The number of pages, \<open>\<lceil>len / n\<rceil>\<close>, as a natural number.\<close>

definition page_count :: "nat \<Rightarrow> nat \<Rightarrow> nat" where
  "page_count len n = (len + n - 1) div n"

subsection \<open>An example dataset\<close>

text \<open>
  A small dataset on which the functions are evaluated below: nine women's items that are
  marked \<^verbatim>\<open>top\<close>, and three men's items of which two are.
\<close>

definition mk :: "string \<Rightarrow> string \<Rightarrow> string \<Rightarrow> string \<Rightarrow> bool \<Rightarrow> item" where
  "mk i t g c p =
     \<lparr>id' = i, title = t, description = ''Cotton'', category = c, gender = g,
      type' = ''basic'', top' = p\<rparr>"

definition shop :: db where
  "shop =
     \<lparr>goods =
        [mk ''1'' ''Red Shirt'' ''women'' ''tops'' True,
         mk ''2'' ''Blue Dress'' ''women'' ''dress'' True,
         mk ''3'' ''Green Skirt'' ''women'' ''skirts'' True,
         mk ''4'' ''White T-shirt'' ''women'' ''tops'' True,
         mk ''5'' ''Black Dress'' ''women'' ''dress'' True,
         mk ''6'' ''Grey Coat'' ''women'' ''coats'' True,
         mk ''7'' ''Pink Scarf'' ''women'' ''scarves'' True,
         mk ''8'' ''Wool Hat'' ''women'' ''hats'' True,
         mk ''9'' ''Silk Blouse'' ''women'' ''tops'' True,
         mk ''10'' ''Blue Jeans'' ''men'' ''pants'' True,
         mk ''11'' ''Denim Shirt'' ''men'' ''tops'' True,
         mk ''12'' ''Brown Belt'' ''men'' ''belts'' False],
      categories = JArray [JString ''tops'', JString ''dress''],
      colors = JArray [JString ''red'', JString ''blue'']\<rparr>"

text \<open>Every draw of \<^verbatim>\<open>Math.random\<close> returns one half.\<close>

definition half :: "nat \<Rightarrow> rat" where
  "half k = 1 / 2"

section \<open>Properties\<close>

subsection \<open>Pagination\<close>

text \<open>
  On natural numbers \<^verbatim>\<open>slice\<close> is \<open>take\<close> after \<open>drop\<close>, and the page \<open>p\<close>
  of size \<open>n\<close> is the segment that starts at \<open>(p - 1) * n\<close>.
\<close>

lemma trunc_of_nat: "trunc (of_nat n) = int n"
  by (simp add: trunc_def)

lemma relative_index_of_nat: "relative_index len (Fin (of_nat n)) = min n len"
  by (simp add: trunc_of_nat)

lemma take_drop_clamped:
  "take (min b (length xs) - min a (length xs)) (drop (min a (length xs)) xs) = take (b - a) (drop a xs)"
proof (cases "a < length xs")
  case True
  then have "min b (length xs) - a = min (b - a) (length (drop a xs))" by auto
  moreover have "take (min (b - a) (length (drop a xs))) (drop a xs) = take (b - a) (drop a xs)"
    by (simp add: min_def)
  ultimately show ?thesis using True by (simp add: min_absorb1)
next
  case False
  then show ?thesis by simp
qed

lemma slice_of_nat:
  "slice xs (Fin (of_nat a)) (Fin (of_nat b)) = take (b - a) (drop a xs)"
  unfolding slice_def Let_def relative_index_of_nat by (rule take_drop_clamped)

lemma pagination_goods_of_nat:
  assumes "toNumber B c = Fin (of_nat n)" and "1 \<le> p"
  shows "page_result.goods (pagination B xs (Fin (of_nat p)) c) = take n (drop ((p - 1) * n) xs)"
proof (cases "p = 1")
  case True
  have "slice xs (Fin (of_nat 0)) (Fin (of_nat n)) = take n xs"
    unfolding slice_of_nat by simp
  with True assms show ?thesis by (simp add: pagination_def)
next
  case False
  with assms have p: "1 < p" by simp
  then have ne: "(of_nat p :: rat) \<noteq> 1" by simp
  have "(p - 1) * n + n = n * p" using p by (simp add: algebra_simps)
  then have "(of_nat ((p - 1) * n) :: rat) + of_nat n = of_nat (n * p)"
    by (metis of_nat_add)
  then have s: "(of_nat (n * p) :: rat) - of_nat n = of_nat ((p - 1) * n)"
    by linarith
  have d: "n * p - (p - 1) * n = n" using p by (simp add: algebra_simps)
  have "js_mul (Fin (of_nat n)) (Fin (of_nat p)) = Fin (of_nat (n * p))" by simp
  moreover have "js_sub (Fin (of_nat (n * p))) (Fin (of_nat n)) = Fin (of_nat ((p - 1) * n))"
    using s by simp
  ultimately have "page_result.goods (pagination B xs (Fin (of_nat p)) c)
        = slice xs (Fin (of_nat ((p - 1) * n))) (Fin (of_nat (n * p)))"
    using assms(1) ne unfolding pagination_def Let_def by simp
  also have "\<dots> = take n (drop ((p - 1) * n) xs)"
    unfolding slice_of_nat d ..
  finally show ?thesis .
qed

lemma ceiling_of_nat_div:
  assumes "0 < n"
  shows "\<lceil>(of_nat len :: rat) / of_nat n\<rceil> = int (page_count len n)"
proof -
  define q where "q = (len + n - 1) div n"
  have lo: "q * n \<le> len + n - 1" unfolding q_def by simp
  have "len + n - 1 < q * n + n"
    unfolding q_def using assms
    by (metis add.commute dividend_less_div_times mult.commute)
  then have hi: "len \<le> q * n" using assms by linarith
  have lo': "q * n < len + n" using lo assms by linarith
  have n0: "(0::rat) < of_nat n" using assms by simp
  have "(of_nat len :: rat) \<le> of_nat (q * n)" using hi by (simp only: of_nat_le_iff)
  then have a: "(of_nat len :: rat) / of_nat n \<le> of_int (int q)"
    using n0 by (simp add: pos_divide_le_eq)
  have "(of_nat (q * n) :: rat) < of_nat (len + n)" using lo' by (simp only: of_nat_less_iff)
  then have "(of_nat q - 1) * (of_nat n :: rat) < of_nat len"
    by (simp add: algebra_simps)
  then have b: "of_int (int q) - 1 < (of_nat len :: rat) / of_nat n"
    using n0 by (simp add: pos_less_divide_eq)
  have "\<lceil>(of_nat len :: rat) / of_nat n\<rceil> = int q"
    by (rule ceiling_unique[OF b a])
  then show ?thesis by (simp add: page_count_def q_def)
qed

lemma concat_take_drop:
  "concat (map (\<lambda>p. take n (drop (p * n) xs)) [0..<k]) = take (k * n) xs"
proof (induction k)
  case 0
  then show ?case by simp
next
  case (Suc k)
  have "take (k * n) xs @ take n (drop (k * n) xs) = take (k * n + n) xs"
    by (simp add: take_add)
  with Suc show ?case by (simp add: add.commute)
qed

lemma getGoodsList_Page:
  assumes "\<not> truthy (P ''top'')" and "\<not> truthy (P ''list'')"
    and "\<not> (truthy (P ''category'') \<and> \<not> truthy (P ''gender''))"
  shows "getGoodsList B d rnd P =
           Inr (Page (pagination B (narrowed B d P) (page_number B P) (paginationCount P)))"
  using assms
  unfolding getGoodsList_def narrowed_def page_number_def paginationCount_def Let_def
    matches_search_def
  by (auto intro!: arg_cong[where f="\<lambda>xs. pagination B xs _ _"] filter_cong)

lemma pagination_of_nat:
  assumes "toNumber B c = Fin (of_nat n)" and "0 < n" and "1 \<le> p"
  shows "pagination B xs (Fin (of_nat p)) c =
           \<lparr>page_result.goods = take n (drop ((p - 1) * n) xs), page = Fin (of_nat p),
            pages = Fin (of_nat (page_count (length xs) n)), totalCount = length xs\<rparr>"
proof -
  have g: "page_result.goods (pagination B xs (Fin (of_nat p)) c) = take n (drop ((p - 1) * n) xs)"
    using assms(1,3) by (rule pagination_goods_of_nat)
  have "js_div (Fin (of_nat (length xs))) (Fin (of_nat n)) = Fin (of_nat (length xs) / of_nat n)"
    using assms(2) by simp
  then have "pages (pagination B xs (Fin (of_nat p)) c) = Fin (of_int (int (page_count (length xs) n)))"
    using assms(1) ceiling_of_nat_div[OF assms(2), of "length xs"]
    by (simp add: pagination_def Let_def)
  then have q: "pages (pagination B xs (Fin (of_nat p)) c) = Fin (of_nat (page_count (length xs) n))"
    by simp
  have "page (pagination B xs (Fin (of_nat p)) c) = Fin (of_nat p)"
    and "totalCount (pagination B xs (Fin (of_nat p)) c) = length xs"
    by (simp_all add: pagination_def Let_def)
  with g q show ?thesis by (intro page_result.equality) simp_all
qed

lemma concat_pages:
  assumes "0 < n"
  shows "concat (map (\<lambda>p. take n (drop ((p - 1) * n) xs)) [1..<Suc (page_count (length xs) n)]) = xs"
proof -
  let ?k = "page_count (length xs) n"
  have "[1..<Suc ?k] = map Suc [0..<?k]" by (simp add: map_Suc_upt)
  then have "concat (map (\<lambda>p. take n (drop ((p - 1) * n) xs)) [1..<Suc ?k])
      = concat (map (\<lambda>p. take n (drop (p * n) xs)) [0..<?k])"
    by (simp add: comp_def)
  also have "\<dots> = take (?k * n) xs" by (rule concat_take_drop)
  also have "\<dots> = xs"
  proof -
    have "length xs + n - 1 < ?k * n + n"
      unfolding page_count_def using assms
      by (metis add.commute dividend_less_div_times mult.commute)
    then have "length xs \<le> ?k * n" using assms by linarith
    then show ?thesis by simp
  qed
  finally show ?thesis .
qed

lemma narrowed_page: "narrowed B d (P(''page'' \<mapsto> s)) = narrowed B d P"
  by (simp add: narrowed_def)

lemma paginationCount_page: "paginationCount (P(''page'' \<mapsto> s)) = paginationCount P"
  by (simp add: paginationCount_def)

lemma page_number_page:
  assumes "StringToNumber B s = Fin (of_nat p)" and "1 \<le> p"
  shows "page_number B (P(''page'' \<mapsto> s)) = Fin (of_nat p)"
  using assms by (simp add: page_number_def unary_plus_def truthy_number_def)

lemma getGoodsList_page_of_nat:
  assumes "\<not> truthy (P ''top'')" and "\<not> truthy (P ''list'')"
    and "\<not> (truthy (P ''category'') \<and> \<not> truthy (P ''gender''))"
    and "toNumber B (paginationCount P) = Fin (of_nat n)" and "0 < n"
    and "StringToNumber B s = Fin (of_nat p)" and "1 \<le> p"
  shows "getGoodsList B d rnd (P(''page'' \<mapsto> s)) =
           Inr (Page \<lparr>page_result.goods = take n (drop ((p - 1) * n) (narrowed B d P)),
                      page = Fin (of_nat p),
                      pages = Fin (of_nat (page_count (length (narrowed B d P)) n)),
                      totalCount = length (narrowed B d P)\<rparr>)"
proof -
  have "getGoodsList B d rnd (P(''page'' \<mapsto> s)) =
          Inr (Page (pagination B (narrowed B d P) (Fin (of_nat p)) (paginationCount P)))"
    using getGoodsList_Page[of "P(''page'' \<mapsto> s)" B d rnd] assms(1,2,3)
    by (simp add: narrowed_page paginationCount_page page_number_page[OF assms(6,7)])
  then show ?thesis
    by (simp only: pagination_of_nat[OF assms(4,5,7)])
qed

text \<open>
  \<^bold>\<open>C1.\<close> Take parameters that reach the paginated branch (no \<^verbatim>\<open>top\<close>, no
  \<^verbatim>\<open>list\<close>, no \<^verbatim>\<open>category\<close> without \<^verbatim>\<open>gender\<close>) and whose page size is a
  positive integer \<open>n\<close>. For every page parameter that denotes an integer \<open>p \<ge> 1\<close>,
  \<^verbatim>\<open>getGoodsList\<close> returns a page of at most \<open>n\<close> items, with
  \<open>pages = \<lceil>totalCount / n\<rceil>\<close>; and the items of the pages \<open>1, \<dots>, pages\<close>, one after
  the other, are exactly the filtered sequence: every item once, in the order of the
  dataset. The pages are asked for through the strings \<open>ss\<close> that denote \<open>1, \<dots>, pages\<close>.
\<close>

theorem getGoodsList_pages_cover:
  assumes "\<not> truthy (P ''top'')" and "\<not> truthy (P ''list'')"
    and "\<not> (truthy (P ''category'') \<and> \<not> truthy (P ''gender''))"
    and "toNumber B (paginationCount P) = Fin (of_nat n)" and "0 < n"
    and "map (StringToNumber B) ss =
           map (\<lambda>p. Fin (of_nat p)) [1..<Suc (page_count (length (narrowed B d P)) n)]"
  shows "(\<forall>p s. 1 \<le> p \<and> StringToNumber B s = Fin (of_nat p) \<longrightarrow>
            (\<exists>r. getGoodsList B d rnd (P(''page'' \<mapsto> s)) = Inr (Page r) \<and>
                 length (page_result.goods r) \<le> n \<and>
                 page r = Fin (of_nat p) \<and>
                 pages r = Fin (of_nat (page_count (length (narrowed B d P)) n)) \<and>
                 totalCount r = length (narrowed B d P))) \<and>
         concat (map (\<lambda>s. page_goods (getGoodsList B d rnd (P(''page'' \<mapsto> s)))) ss) =
           narrowed B d P"
proof (intro conjI allI impI)
  fix p s
  assume "1 \<le> p \<and> StringToNumber B s = Fin (of_nat p)"
  then show "\<exists>r. getGoodsList B d rnd (P(''page'' \<mapsto> s)) = Inr (Page r) \<and>
                 length (page_result.goods r) \<le> n \<and>
                 page r = Fin (of_nat p) \<and>
                 pages r = Fin (of_nat (page_count (length (narrowed B d P)) n)) \<and>
                 totalCount r = length (narrowed B d P)"
    using getGoodsList_page_of_nat[OF assms(1-5), of s p d rnd] by simp
next
  let ?xs = "narrowed B d P"
  let ?k = "page_count (length ?xs) n"
  have len: "length ss = ?k"
    using arg_cong[OF assms(6), of length] by simp
  have nth: "StringToNumber B (ss ! i) = Fin (of_nat (Suc i))" if "i < ?k" for i
  proof -
    have "map (StringToNumber B) ss ! i = map (\<lambda>p. Fin (of_nat p)) [1..<Suc ?k] ! i"
      by (simp only: assms(6))
    then show ?thesis using that len by (simp del: upt_Suc)
  qed
  have "map (\<lambda>s. page_goods (getGoodsList B d rnd (P(''page'' \<mapsto> s)))) ss =
        map (\<lambda>p. take n (drop ((p - 1) * n) ?xs)) [1..<Suc ?k]"
  proof (rule nth_equalityI)
    show "length (map (\<lambda>s. page_goods (getGoodsList B d rnd (P(''page'' \<mapsto> s)))) ss) =
          length (map (\<lambda>p. take n (drop ((p - 1) * n) ?xs)) [1..<Suc ?k])"
      using len by simp
  next
    fix i
    assume "i < length (map (\<lambda>s. page_goods (getGoodsList B d rnd (P(''page'' \<mapsto> s)))) ss)"
    then have i: "i < ?k" using len by simp
    have "page_goods (getGoodsList B d rnd (P(''page'' \<mapsto> ss ! i))) = take n (drop (i * n) ?xs)"
      using getGoodsList_page_of_nat[OF assms(1-5) nth[OF i], of d rnd] by simp
    then show "map (\<lambda>s. page_goods (getGoodsList B d rnd (P(''page'' \<mapsto> s)))) ss ! i =
               map (\<lambda>p. take n (drop ((p - 1) * n) ?xs)) [1..<Suc ?k] ! i"
      using i len by (simp del: upt_Suc)
  qed
  then show "concat (map (\<lambda>s. page_goods (getGoodsList B d rnd (P(''page'' \<mapsto> s)))) ss) = ?xs"
    using concat_pages[OF assms(5), of ?xs] by simp
qed

theorem getGoodsList_pages_cover_witness:
  "\<not> truthy ([''gender'' \<mapsto> ''women'', ''count'' \<mapsto> ''4''] ''top'') \<and>
   \<not> truthy ([''gender'' \<mapsto> ''women'', ''count'' \<mapsto> ''4''] ''list'') \<and>
   \<not> (truthy ([''gender'' \<mapsto> ''women'', ''count'' \<mapsto> ''4''] ''category'') \<and>
      \<not> truthy ([''gender'' \<mapsto> ''women'', ''count'' \<mapsto> ''4''] ''gender'')) \<and>
   toNumber ascii (paginationCount [''gender'' \<mapsto> ''women'', ''count'' \<mapsto> ''4'']) = Fin (of_nat 4) \<and>
   (0::nat) < 4 \<and>
   map (StringToNumber ascii) [''1'', ''2'', ''3''] =
     map (\<lambda>p. Fin (of_nat p))
       [1..<Suc (page_count (length (narrowed ascii shop [''gender'' \<mapsto> ''women'', ''count'' \<mapsto> ''4''])) 4)] \<and>
   (\<exists>r. getGoodsList ascii shop half [''gender'' \<mapsto> ''women'', ''count'' \<mapsto> ''4'', ''page'' \<mapsto> ''3'']
          = Inr (Page r) \<and>
        length (page_result.goods r) \<le> 4 \<and> page r = Fin 3 \<and> pages r = Fin 3 \<and> totalCount r = 9) \<and>
   concat (map (\<lambda>s. page_goods (getGoodsList ascii shop half
                  [''gender'' \<mapsto> ''women'', ''count'' \<mapsto> ''4'', ''page'' \<mapsto> s]))
             [''1'', ''2'', ''3'']) =
     filter (\<lambda>i. gender i = ''women'') (db.goods shop)"
proof -
  let ?P = "[''gender'' \<mapsto> ''women'', ''count'' \<mapsto> ''4'']"
  have h1: "\<not> truthy (?P ''top'')" by (simp add: truthy_def)
  have h2: "\<not> truthy (?P ''list'')" by (simp add: truthy_def)
  have h3: "\<not> (truthy (?P ''category'') \<and> \<not> truthy (?P ''gender''))" by (simp add: truthy_def)
  have h4: "toNumber ascii (paginationCount ?P) = Fin (of_nat 4)" by code_simp
  have h5: "(0::nat) < 4" by simp
  have n: "narrowed ascii shop ?P = filter (\<lambda>i. gender i = ''women'') (db.goods shop)"
    by (simp add: narrowed_def truthy_def)
  have l: "page_count (length (narrowed ascii shop ?P)) 4 = 3" by code_simp
  have h6: "map (StringToNumber ascii) [''1'', ''2'', ''3''] =
     map (\<lambda>p. Fin (of_nat p)) [1..<Suc (page_count (length (narrowed ascii shop ?P)) 4)]"
    unfolding l by code_simp
  have s3: "(1::nat) \<le> 3 \<and> StringToNumber ascii ''3'' = Fin (of_nat 3)" by code_simp
  note t = getGoodsList_pages_cover[OF h1 h2 h3 h4 h5 h6, of half]
  from t s3 have "\<exists>r. getGoodsList ascii shop half (?P(''page'' \<mapsto> ''3'')) = Inr (Page r) \<and>
                 length (page_result.goods r) \<le> 4 \<and>
                 page r = Fin (of_nat 3) \<and>
                 pages r = Fin (of_nat (page_count (length (narrowed ascii shop ?P)) 4)) \<and>
                 totalCount r = length (narrowed ascii shop ?P)"
    by blast
  moreover have "length (narrowed ascii shop ?P) = 9" by code_simp
  ultimately have a: "\<exists>r. getGoodsList ascii shop half (?P(''page'' \<mapsto> ''3'')) = Inr (Page r) \<and>
        length (page_result.goods r) \<le> 4 \<and> page r = Fin 3 \<and> pages r = Fin 3 \<and> totalCount r = 9"
    using l by simp
  from t have b: "concat (map (\<lambda>s. page_goods (getGoodsList ascii shop half (?P(''page'' \<mapsto> s))))
             [''1'', ''2'', ''3'']) = filter (\<lambda>i. gender i = ''women'') (db.goods shop)"
    unfolding n by blast
  show ?thesis using h1 h2 h3 h4 h5 h6 a b by blast
qed

text \<open>
  \<^bold>\<open>C8\<close> as stated fails on a negative page. With twelve items, page \<open>-1\<close> and page
  size 5, \<open>end\<close> is \<open>-5\<close> and \<open>start\<close> is \<open>-10\<close>; \<^verbatim>\<open>slice\<close> counts both from
  the end of the array and returns the items at the indices 2 to 6.
\<close>

theorem getGoodsList_negative_page_counterexample:
  "map id' (page_goods (getGoodsList ascii shop half [''page'' \<mapsto> ''-1'', ''count'' \<mapsto> ''5'']))
     = [''3'', ''4'', ''5'', ''6'', ''7'']"
  by code_simp

text \<open>
  \<^bold>\<open>C8\<close>, amended. In the paginated branch, with a positive integer page size
  \<open>n\<close>, every page \<open>p \<ge> 1\<close> that starts at or after the end of the filtered sequence
  (\<open>(p - 1) * n \<ge> totalCount\<close>) yields a page result, not an error, and its items are
  empty.
\<close>

theorem getGoodsList_page_past_end:
  assumes "\<not> truthy (P ''top'')" and "\<not> truthy (P ''list'')"
    and "\<not> (truthy (P ''category'') \<and> \<not> truthy (P ''gender''))"
    and "toNumber B (paginationCount P) = Fin (of_nat n)" and "0 < n"
    and "StringToNumber B s = Fin (of_nat p)" and "1 \<le> p"
    and "length (narrowed B d P) \<le> (p - 1) * n"
  shows "\<exists>r. getGoodsList B d rnd (P(''page'' \<mapsto> s)) = Inr (Page r) \<and>
             page_result.goods r = [] \<and> totalCount r = length (narrowed B d P)"
  using getGoodsList_page_of_nat[OF assms(1-7), of d rnd] assms(8) by simp

theorem getGoodsList_page_past_end_witness:
  "\<not> truthy ([''gender'' \<mapsto> ''women'', ''count'' \<mapsto> ''4''] ''top'') \<and>
   \<not> truthy ([''gender'' \<mapsto> ''women'', ''count'' \<mapsto> ''4''] ''list'') \<and>
   \<not> (truthy ([''gender'' \<mapsto> ''women'', ''count'' \<mapsto> ''4''] ''category'') \<and>
      \<not> truthy ([''gender'' \<mapsto> ''women'', ''count'' \<mapsto> ''4''] ''gender'')) \<and>
   toNumber ascii (paginationCount [''gender'' \<mapsto> ''women'', ''count'' \<mapsto> ''4'']) = Fin (of_nat 4) \<and>
   (0::nat) < 4 \<and> StringToNumber ascii ''4'' = Fin (of_nat 4) \<and> (1::nat) \<le> 4 \<and>
   length (narrowed ascii shop [''gender'' \<mapsto> ''women'', ''count'' \<mapsto> ''4'']) \<le> (4 - 1) * 4 \<and>
   (\<exists>r. getGoodsList ascii shop half [''gender'' \<mapsto> ''women'', ''count'' \<mapsto> ''4'', ''page'' \<mapsto> ''4'']
          = Inr (Page r) \<and> page_result.goods r = [] \<and> totalCount r = 9)"
proof -
  let ?P = "[''gender'' \<mapsto> ''women'', ''count'' \<mapsto> ''4'']"
  have h1: "\<not> truthy (?P ''top'')" by (simp add: truthy_def)
  have h2: "\<not> truthy (?P ''list'')" by (simp add: truthy_def)
  have h3: "\<not> (truthy (?P ''category'') \<and> \<not> truthy (?P ''gender''))" by (simp add: truthy_def)
  have h4: "toNumber ascii (paginationCount ?P) = Fin (of_nat 4)" by code_simp
  have h5: "(0::nat) < 4" by simp
  have h6: "StringToNumber ascii ''4'' = Fin (of_nat 4)" by code_simp
  have h7: "(1::nat) \<le> 4" by simp
  have l: "length (narrowed ascii shop ?P) = 9" by code_simp
  have h8: "length (narrowed ascii shop ?P) \<le> (4 - 1) * 4" unfolding l by simp
  from getGoodsList_page_past_end[OF h1 h2 h3 h4 h5 h6 h7 h8, of half]
  have "\<exists>r. getGoodsList ascii shop half (?P(''page'' \<mapsto> ''4'')) = Inr (Page r) \<and>
            page_result.goods r = [] \<and> totalCount r = 9"
    unfolding l .
  then show ?thesis using h1 h2 h3 h4 h5 h6 h7 h8 by blast
qed

subsection \<open>The branches of \<^verbatim>\<open>getGoodsList\<close>\<close>

text \<open>
  A parameter is \<^emph>\<open>present\<close> below when the code's test of it succeeds, that is, when
  it is truthy: given, and not the empty string.
\<close>

text \<open>
  \<^bold>\<open>C2\<close> as stated fails when \<^verbatim>\<open>top\<close> is present: the \<^verbatim>\<open>top\<close> branch returns
  before the test of \<^verbatim>\<open>category\<close> is reached, so the request is answered with the
  shuffled top items and not with the error.
\<close>

theorem getGoodsList_category_with_top_counterexample:
  "getGoodsList ascii shop half [''category'' \<mapsto> ''dress'', ''top'' \<mapsto> ''women''] \<noteq>
     Inl (ApiError 403 (message ''Not gender params'')) \<and>
   map (map_option id')
     (listed (getGoodsList ascii shop half [''category'' \<mapsto> ''dress'', ''top'' \<mapsto> ''women''])) =
     [Some ''1'', Some ''6'', Some ''2'', Some ''8'', Some ''3'', Some ''7'', Some ''4'', Some ''9'']"
  by code_simp

text \<open>
  \<^bold>\<open>C2\<close>, amended. When \<^verbatim>\<open>top\<close> is absent, \<^verbatim>\<open>category\<close> is present and
  \<^verbatim>\<open>gender\<close> is absent, \<^verbatim>\<open>getGoodsList\<close> fails with the error of status 403 and
  payload \<^verbatim>\<open>{message: "Not gender params"}\<close>, whatever the category is and whatever
  \<^verbatim>\<open>search\<close>, \<^verbatim>\<open>list\<close> and the other parameters are.
\<close>

theorem getGoodsList_category_without_gender:
  assumes "\<not> truthy (P ''top'')" and "truthy (P ''category'')" and "\<not> truthy (P ''gender'')"
  shows "getGoodsList B d rnd P = Inl (ApiError 403 (message ''Not gender params''))"
  using assms by (simp add: getGoodsList_def Let_def)

theorem getGoodsList_category_without_gender_witness:
  "\<not> truthy ([''category'' \<mapsto> ''dress'', ''search'' \<mapsto> ''shirt'', ''list'' \<mapsto> ''1''] ''top'') \<and>
   truthy ([''category'' \<mapsto> ''dress'', ''search'' \<mapsto> ''shirt'', ''list'' \<mapsto> ''1''] ''category'') \<and>
   \<not> truthy ([''category'' \<mapsto> ''dress'', ''search'' \<mapsto> ''shirt'', ''list'' \<mapsto> ''1''] ''gender'') \<and>
   getGoodsList ascii shop half [''category'' \<mapsto> ''dress'', ''search'' \<mapsto> ''shirt'', ''list'' \<mapsto> ''1''] =
     Inl (ApiError 403 (message ''Not gender params''))"
proof -
  let ?P = "[''category'' \<mapsto> ''dress'', ''search'' \<mapsto> ''shirt'', ''list'' \<mapsto> ''1'']"
  have h1: "\<not> truthy (?P ''top'')" by (simp add: truthy_def)
  have h2: "truthy (?P ''category'')" by (simp add: truthy_def)
  have h3: "\<not> truthy (?P ''gender'')" by (simp add: truthy_def)
  from getGoodsList_category_without_gender[where P="?P", OF h1 h2 h3] h1 h2 h3
  show ?thesis by blast
qed

text \<open>
  \<^bold>\<open>C3\<close> as stated fails in two ways. With \<^verbatim>\<open>category\<close> and no \<^verbatim>\<open>gender\<close>
  the 403 error is thrown before the search is looked at; and with \<^verbatim>\<open>list\<close> present
  the result is the array of the listed items (here those whose identifier occurs in
  \<^verbatim>\<open>"12"\<close>), which is neither the search result nor paginated.
\<close>

theorem getGoodsList_search_counterexample:
  "getGoodsList ascii shop half [''search'' \<mapsto> ''shirt'', ''category'' \<mapsto> ''tops''] =
     Inl (ApiError 403 (message ''Not gender params'')) \<and>
   getGoodsList ascii shop half [''search'' \<mapsto> ''shirt'', ''list'' \<mapsto> ''12''] =
     Inr (Items [Some (mk ''1'' ''Red Shirt'' ''women'' ''tops'' True),
                 Some (mk ''2'' ''Blue Dress'' ''women'' ''dress'' True),
                 Some (mk ''12'' ''Brown Belt'' ''men'' ''belts'' False)])"
  by code_simp

text \<open>
  \<^bold>\<open>C3\<close>, amended. When \<^verbatim>\<open>search\<close> is present, \<^verbatim>\<open>top\<close> and \<^verbatim>\<open>list\<close>
  are absent, and \<^verbatim>\<open>category\<close> does not come without \<^verbatim>\<open>gender\<close>, the result is
  the pagination of the items of the whole dataset whose title or description, in lower
  case, contains the trimmed, lower-cased search string. The values of \<^verbatim>\<open>gender\<close>,
  \<^verbatim>\<open>category\<close> and \<^verbatim>\<open>type\<close> do not occur in it: every matching item is found,
  whatever they are.
\<close>

theorem getGoodsList_search:
  assumes "\<not> truthy (P ''top'')" and "truthy (P ''search'')" and "\<not> truthy (P ''list'')"
    and "\<not> (truthy (P ''category'') \<and> \<not> truthy (P ''gender''))"
  shows "getGoodsList B d rnd P =
           Inr (Page (pagination B (filter (matches_search B (str (P ''search''))) (db.goods d))
                        (page_number B P) (paginationCount P)))"
  using getGoodsList_Page[OF assms(1,3,4), of B d rnd] assms(2) by (simp add: narrowed_def)

theorem getGoodsList_search_witness:
  "\<not> truthy ([''search'' \<mapsto> '' SHIRT '', ''gender'' \<mapsto> ''men''] ''top'') \<and>
   truthy ([''search'' \<mapsto> '' SHIRT '', ''gender'' \<mapsto> ''men''] ''search'') \<and>
   \<not> truthy ([''search'' \<mapsto> '' SHIRT '', ''gender'' \<mapsto> ''men''] ''list'') \<and>
   \<not> (truthy ([''search'' \<mapsto> '' SHIRT '', ''gender'' \<mapsto> ''men''] ''category'') \<and>
      \<not> truthy ([''search'' \<mapsto> '' SHIRT '', ''gender'' \<mapsto> ''men''] ''gender'')) \<and>
   getGoodsList ascii shop half [''search'' \<mapsto> '' SHIRT '', ''gender'' \<mapsto> ''men''] =
     Inr (Page (pagination ascii
       [mk ''1'' ''Red Shirt'' ''women'' ''tops'' True,
        mk ''4'' ''White T-shirt'' ''women'' ''tops'' True,
        mk ''11'' ''Denim Shirt'' ''men'' ''tops'' True]
       (Fin 1) (JNum (Fin 12))))"
proof -
  let ?P = "[''search'' \<mapsto> '' SHIRT '', ''gender'' \<mapsto> ''men'']"
  have h1: "\<not> truthy (?P ''top'')" by (simp add: truthy_def)
  have h2: "truthy (?P ''search'')" by (simp add: truthy_def)
  have h3: "\<not> truthy (?P ''list'')" by (simp add: truthy_def)
  have h4: "\<not> (truthy (?P ''category'') \<and> \<not> truthy (?P ''gender''))" by (simp add: truthy_def)
  have f: "filter (matches_search ascii (str (?P ''search''))) (db.goods shop) =
       [mk ''1'' ''Red Shirt'' ''women'' ''tops'' True,
        mk ''4'' ''White T-shirt'' ''women'' ''tops'' True,
        mk ''11'' ''Denim Shirt'' ''men'' ''tops'' True]"
    by code_simp
  have p: "page_number ascii ?P = Fin 1" by code_simp
  have c: "paginationCount ?P = JNum (Fin 12)" by code_simp
  from getGoodsList_search[where P="?P", OF h1 h2 h3 h4, of ascii shop half]
  have "getGoodsList ascii shop half ?P =
     Inr (Page (pagination ascii
       [mk ''1'' ''Red Shirt'' ''women'' ''tops'' True,
        mk ''4'' ''White T-shirt'' ''women'' ''tops'' True,
        mk ''11'' ''Denim Shirt'' ''men'' ''tops'' True]
       (Fin 1) (JNum (Fin 12))))"
    unfolding f p c .
  with h1 h2 h3 h4 show ?thesis by blast
qed

text \<open>
  \<open>includes'\<close> is containment as a contiguous piece.
\<close>

lemma includes'_iff: "includes' h s \<longleftrightarrow> (\<exists>a b. h = a @ s @ b)"
proof (induction h)
  case Nil
  then show ?case by simp
next
  case (Cons c cs)
  show ?case
  proof
    assume "includes' (c # cs) s"
    then consider "prefix s (c # cs)" | "includes' cs s" by auto
    then show "\<exists>a b. c # cs = a @ s @ b"
    proof cases
      case 1
      then obtain b where "c # cs = s @ b" by (auto simp: prefix_def)
      then have "c # cs = [] @ s @ b" by simp
      then show ?thesis by blast
    next
      case 2
      with Cons obtain a b where "cs = a @ s @ b" by blast
      then have "c # cs = (c # a) @ s @ b" by simp
      then show ?thesis by blast
    qed
  next
    assume "\<exists>a b. c # cs = a @ s @ b"
    then obtain a b where ab: "c # cs = a @ s @ b" by blast
    show "includes' (c # cs) s"
    proof (cases a)
      case Nil
      with ab have "prefix s (c # cs)" by (simp add: prefix_def)
      then show ?thesis by simp
    next
      case (Cons x a')
      with ab have "cs = a' @ s @ b" by simp
      with Cons.IH have "includes' cs s" by blast
      then show ?thesis by simp
    qed
  qed
qed

text \<open>
  \<^bold>\<open>C4\<close> as stated fails when \<^verbatim>\<open>category\<close> comes without \<^verbatim>\<open>gender\<close>: the 403
  error is thrown before \<^verbatim>\<open>list\<close> is looked at.
\<close>

theorem getGoodsList_list_counterexample:
  "getGoodsList ascii shop half [''list'' \<mapsto> ''1'', ''category'' \<mapsto> ''tops''] =
     Inl (ApiError 403 (message ''Not gender params''))"
  by code_simp

text \<open>
  \<^bold>\<open>C4\<close>, amended. When \<^verbatim>\<open>list\<close> is present, \<^verbatim>\<open>top\<close> is absent and
  \<^verbatim>\<open>category\<close> does not come without \<^verbatim>\<open>gender\<close>, the result is the array of
  exactly the items of the dataset whose identifier is a contiguous piece of the
  trimmed, lower-cased list string, in the order of the dataset; it is not paginated, and
  \<^verbatim>\<open>gender\<close>, \<^verbatim>\<open>category\<close>, \<^verbatim>\<open>type\<close> and \<^verbatim>\<open>search\<close> do not occur in it.
  In the example the list \<^verbatim>\<open>"1,12"\<close> also selects the item 2.
\<close>

theorem getGoodsList_list:
  assumes "\<not> truthy (P ''top'')" and "truthy (P ''list'')"
    and "\<not> (truthy (P ''category'') \<and> \<not> truthy (P ''gender''))"
  shows "getGoodsList B d rnd P =
           Inr (Items (map Some
             (filter (\<lambda>item. \<exists>a b. toLowerCase B (trim B (str (P ''list''))) = a @ id' item @ b)
                (db.goods d))))"
  using assms by (simp add: getGoodsList_def Let_def includes'_iff)

theorem getGoodsList_list_witness:
  "\<not> truthy ([''list'' \<mapsto> ''1,12'', ''gender'' \<mapsto> ''men'', ''search'' \<mapsto> ''coat''] ''top'') \<and>
   truthy ([''list'' \<mapsto> ''1,12'', ''gender'' \<mapsto> ''men'', ''search'' \<mapsto> ''coat''] ''list'') \<and>
   \<not> (truthy ([''list'' \<mapsto> ''1,12'', ''gender'' \<mapsto> ''men'', ''search'' \<mapsto> ''coat''] ''category'') \<and>
      \<not> truthy ([''list'' \<mapsto> ''1,12'', ''gender'' \<mapsto> ''men'', ''search'' \<mapsto> ''coat''] ''gender'')) \<and>
   getGoodsList ascii shop half [''list'' \<mapsto> ''1,12'', ''gender'' \<mapsto> ''men'', ''search'' \<mapsto> ''coat''] =
     Inr (Items (map Some (filter (\<lambda>item. \<exists>a b. ''1,12'' = a @ id' item @ b) (db.goods shop)))) \<and>
   map (map_option id')
     (listed (getGoodsList ascii shop half
        [''list'' \<mapsto> ''1,12'', ''gender'' \<mapsto> ''men'', ''search'' \<mapsto> ''coat''])) =
     [Some ''1'', Some ''2'', Some ''12'']"
proof -
  let ?P = "[''list'' \<mapsto> ''1,12'', ''gender'' \<mapsto> ''men'', ''search'' \<mapsto> ''coat'']"
  have h1: "\<not> truthy (?P ''top'')" by (simp add: truthy_def)
  have h2: "truthy (?P ''list'')" by (simp add: truthy_def)
  have h3: "\<not> (truthy (?P ''category'') \<and> \<not> truthy (?P ''gender''))" by (simp add: truthy_def)
  have l: "toLowerCase ascii (trim ascii (str (?P ''list''))) = ''1,12''" by code_simp
  have e: "map (map_option id') (listed (getGoodsList ascii shop half ?P)) =
     [Some ''1'', Some ''2'', Some ''12'']" by code_simp
  from getGoodsList_list[where P="?P", OF h1 h2 h3, of ascii shop half]
  have "getGoodsList ascii shop half ?P =
     Inr (Items (map Some (filter (\<lambda>item. \<exists>a b. ''1,12'' = a @ id' item @ b) (db.goods shop))))"
    unfolding l .
  with h1 h2 h3 e show ?thesis by blast
qed

text \<open>
  \<^bold>\<open>C10.\<close> When \<^verbatim>\<open>top\<close> is absent the result does not depend on the values that
  \<^verbatim>\<open>Math.random\<close> returns: two evaluations with the same dataset and the same
  parameters give the same result.
\<close>

theorem getGoodsList_deterministic:
  assumes "\<not> truthy (P ''top'')"
  shows "getGoodsList B d rnd P = getGoodsList B d rnd' P"
  using assms by (simp add: getGoodsList_def Let_def)

theorem getGoodsList_deterministic_witness:
  "\<not> truthy ([''gender'' \<mapsto> ''women''] ''top'') \<and>
   getGoodsList ascii shop half [''gender'' \<mapsto> ''women''] =
     getGoodsList ascii shop (\<lambda>k. 0) [''gender'' \<mapsto> ''women'']"
proof -
  have h: "\<not> truthy ([''gender'' \<mapsto> ''women''] ''top'')" by (simp add: truthy_def)
  from getGoodsList_deterministic[where P="[''gender'' \<mapsto> ''women'']", OF h] h
  show ?thesis by blast
qed

subsection \<open>The \<^verbatim>\<open>top\<close> branch\<close>

text \<open>
  The shuffle keeps the length of the array and, when every draw is in \<open>[0, 1)\<close>, its
  elements: each index \<open>j\<close> that is drawn is at most \<open>i\<close>.
\<close>

lemma length_shuffle_loop: "length (shuffle_loop rnd n xs) = length xs"
  by (induction n arbitrary: rnd xs) (simp_all add: Let_def)

lemma length_shuffle: "length (shuffle rnd xs) = length xs"
  by (simp add: shuffle_def length_shuffle_loop)




lemma getGoodsList_top_branch:
  assumes "truthy (P ''top'')"
  shows "getGoodsList B d rnd P =
           Inr (Items (set_length 8 (shuffle rnd
             (filter (\<lambda>item. top' item \<and> Some (gender item) = P ''top'') (db.goods d)))))"
  using assms by (simp add: getGoodsList_def Let_def)








text \<open>
  \<^bold>\<open>C9.\<close> When \<^verbatim>\<open>top\<close> is present and \<open>m < 8\<close> items match,
  \<^verbatim>\<open>getGoodsList\<close> does not fail: it returns an array of length 8 whose first \<open>m\<close>
  entries are items and whose other \<open>8 - m\<close> entries are empty slots, and the body
  that the \<^verbatim>\<open>try\<close> block writes for it has \<^verbatim>\<open>null\<close> at these positions.
\<close>

theorem getGoodsList_top_short:
  assumes "truthy (P ''top'')"
    and "length (filter (\<lambda>item. top' item \<and> Some (gender item) = P ''top'') (db.goods d)) = m"
    and "m < 8"
  shows "\<exists>ys. length ys = m \<and>
              getGoodsList B d rnd P = Inr (Items (map Some ys @ replicate (8 - m) None)) \<and>
              length (map Some ys @ replicate (8 - m) None) = 8 \<and>
              try_body B d rnd \<lparr>method = ''GET'', url = u\<rparr> [] P =
                Inr (Some (JArray (map JItem ys @ replicate (8 - m) JNull)))"
proof -
  let ?M = "filter (\<lambda>item. top' item \<and> Some (gender item) = P ''top'') (db.goods d)"
  let ?ys = "shuffle rnd ?M"
  have l: "length ?ys = m" using assms(2) by (simp add: length_shuffle)
  then have "set_length 8 ?ys = map Some ?ys @ replicate (8 - m) None"
    using assms(3) by (simp add: set_length_def)
  then have g: "getGoodsList B d rnd P = Inr (Items (map Some ?ys @ replicate (8 - m) None))"
    using getGoodsList_top_branch[where P=P and B=B and d=d and rnd=rnd, OF assms(1)] by simp
  have "map json_slot (map Some ?ys @ replicate (8 - m) None) = map JItem ?ys @ replicate (8 - m) JNull"
    by (simp add: json_slot_def comp_def)
  then have "try_body B d rnd \<lparr>method = ''GET'', url = u\<rparr> [] P =
                Inr (Some (JArray (map JItem ?ys @ replicate (8 - m) JNull)))"
    using g by (simp add: try_body_def)
  moreover have "length (map Some ?ys @ replicate (8 - m) None) = 8"
    using l assms(3) by simp
  ultimately show ?thesis using l g by blast
qed

theorem getGoodsList_top_short_witness:
  "truthy ([''top'' \<mapsto> ''men''] ''top'') \<and>
   length (filter (\<lambda>item. top' item \<and> Some (gender item) = [''top'' \<mapsto> ''men''] ''top'') (db.goods shop)) = 2 \<and>
   (2::nat) < 8 \<and>
   (\<exists>ys. length ys = 2 \<and>
         getGoodsList ascii shop half [''top'' \<mapsto> ''men''] =
           Inr (Items (map Some ys @ [None, None, None, None, None, None])) \<and>
         try_body ascii shop half \<lparr>method = ''GET'', url = ''/api/goods?top=men''\<rparr> [] [''top'' \<mapsto> ''men''] =
           Inr (Some (JArray (map JItem ys @ [JNull, JNull, JNull, JNull, JNull, JNull])))) \<and>
   handler ascii shop half \<lparr>method = ''GET'', url = ''/api/goods?top=men''\<rparr> =
     Response 200 (Some (JArray
       [JItem (mk ''10'' ''Blue Jeans'' ''men'' ''pants'' True),
        JItem (mk ''11'' ''Denim Shirt'' ''men'' ''tops'' True),
        JNull, JNull, JNull, JNull, JNull, JNull]))"
proof -
  let ?P = "[''top'' \<mapsto> ''men'']"
  have h1: "truthy (?P ''top'')" by (simp add: truthy_def)
  have h2: "length (filter (\<lambda>item. top' item \<and> Some (gender item) = ?P ''top'') (db.goods shop)) = 2"
    by code_simp
  have h3: "(2::nat) < 8" by simp
  have r: "replicate (8 - 2) x = [x, x, x, x, x, x]" for x :: 'a
    by (simp add: numeral_eq_Suc)
  from getGoodsList_top_short[where P="?P", OF h1 h2 h3, of ascii half "''/api/goods?top=men''"]
  have "\<exists>ys. length ys = 2 \<and>
         getGoodsList ascii shop half ?P =
           Inr (Items (map Some ys @ [None, None, None, None, None, None])) \<and>
         try_body ascii shop half \<lparr>method = ''GET'', url = ''/api/goods?top=men''\<rparr> [] ?P =
           Inr (Some (JArray (map JItem ys @ [JNull, JNull, JNull, JNull, JNull, JNull])))"
    unfolding r by blast
  moreover have "handler ascii shop half \<lparr>method = ''GET'', url = ''/api/goods?top=men''\<rparr> =
     Response 200 (Some (JArray
       [JItem (mk ''10'' ''Blue Jeans'' ''men'' ''pants'' True),
        JItem (mk ''11'' ''Denim Shirt'' ''men'' ''tops'' True),
        JNull, JNull, JNull, JNull, JNull, JNull]))"
    by code_simp
  ultimately show ?thesis using h1 h2 h3 by blast
qed

subsection \<open>\<^verbatim>\<open>getItems\<close>\<close>

text \<open>
  \<^bold>\<open>C6.\<close> When the dataset has an item with the identifier, \<^verbatim>\<open>getItems\<close> returns
  an item of the dataset with that identifier, which is the item itself when identifiers
  are unique; when no item has the identifier, it fails with the error of status 404 and
  payload \<^verbatim>\<open>{message: "Item Not Found"}\<close>.
\<close>

theorem getItems_found_or_404:
  "(item \<in> set (db.goods d) \<and> id' item = i \<longrightarrow>
      (\<exists>found. getItems d i = Inr found \<and> found \<in> set (db.goods d) \<and> id' found = i \<and>
               (distinct (map id' (db.goods d)) \<longrightarrow> found = item))) \<and>
   (i \<notin> set (map id' (db.goods d)) \<longrightarrow>
      getItems d i = Inl (ApiError 404 (message ''Item Not Found'')))"
proof (intro conjI impI)
  assume a: "item \<in> set (db.goods d) \<and> id' item = i"
  then have "find (\<lambda>x. id' x = i) (db.goods d) \<noteq> None"
    by (auto simp: find_None_iff)
  then obtain found where f: "find (\<lambda>x. id' x = i) (db.goods d) = Some found" by blast
  then have m: "found \<in> set (db.goods d)" and e: "id' found = i"
    by (auto simp: find_Some_iff)
  have "distinct (map id' (db.goods d)) \<longrightarrow> found = item"
    using a m e by (auto simp: distinct_map dest: inj_onD)
  with f m e show "\<exists>found. getItems d i = Inr found \<and> found \<in> set (db.goods d) \<and> id' found = i \<and>
               (distinct (map id' (db.goods d)) \<longrightarrow> found = item)"
    by (simp add: getItems_def)
next
  assume "i \<notin> set (map id' (db.goods d))"
  then have "find (\<lambda>x. id' x = i) (db.goods d) = None"
    by (auto simp: find_None_iff)
  then show "getItems d i = Inl (ApiError 404 (message ''Item Not Found''))"
    by (simp add: getItems_def)
qed

theorem getItems_found_or_404_witness:
  "mk ''3'' ''Green Skirt'' ''women'' ''skirts'' True \<in> set (db.goods shop) \<and>
   id' (mk ''3'' ''Green Skirt'' ''women'' ''skirts'' True) = ''3'' \<and>
   distinct (map id' (db.goods shop)) \<and>
   getItems shop ''3'' = Inr (mk ''3'' ''Green Skirt'' ''women'' ''skirts'' True) \<and>
   ''999'' \<notin> set (map id' (db.goods shop)) \<and>
   getItems shop ''999'' = Inl (ApiError 404 (message ''Item Not Found''))"
proof -
  let ?i = "mk ''3'' ''Green Skirt'' ''women'' ''skirts'' True"
  have h1: "?i \<in> set (db.goods shop) \<and> id' ?i = ''3''" by (simp add: shop_def mk_def)
  have h2: "distinct (map id' (db.goods shop))" by (simp add: shop_def mk_def)
  have h3: "''999'' \<notin> set (map id' (db.goods shop))" by (simp add: shop_def mk_def)
  from getItems_found_or_404[of ?i shop "''3''"] h1 h2
  have a: "getItems shop ''3'' = Inr ?i" by blast
  from getItems_found_or_404[of ?i shop "''999''"] h3
  have b: "getItems shop ''999'' = Inl (ApiError 404 (message ''Item Not Found''))" by blast
  from h1 h2 h3 a b show ?thesis by blast
qed

subsection \<open>Errors in the handler\<close>

text \<open>
  \<^bold>\<open>C7.\<close> The query string is decoded before the \<^verbatim>\<open>try\<close> block is entered. On
  \<^verbatim>\<open>GET /api/goods?search=%\<close>, where \<^verbatim>\<open>decodeURIComponent("%")\<close> throws, the
  \<^verbatim>\<open>URIError\<close> leaves the handler: the request gets no response, where the
  \<^verbatim>\<open>catch\<close> block would have answered the same error with status 500 and
  \<^verbatim>\<open>{message: "Server Error"}\<close>.
\<close>

theorem handler_malformed_escape:
  assumes "decodeURIComponent B ''%'' = None"
  shows "handler B d rnd \<lparr>method = ''GET'', url = ''/api/goods?search=%''\<rparr> = Rejected URIError \<and>
         catch URIError = Response 500 (Some (message ''Server Error''))"
  using assms
  by (simp add: handler_def substring_def startsWith_def URI_PREFIX_def)

theorem handler_malformed_escape_witness:
  "decodeURIComponent ascii ''%'' = None \<and>
   handler ascii shop half \<lparr>method = ''GET'', url = ''/api/goods?search=%''\<rparr> = Rejected URIError \<and>
   catch URIError = Response 500 (Some (message ''Server Error''))"
proof -
  have h: "decodeURIComponent ascii ''%'' = None" by code_simp
  from handler_malformed_escape[OF h, of shop half] h show ?thesis by blast
qed

end
